theory Spec2Isabelle
  imports Complex_Main "HOL-Library.Multiset"
begin

section \<open>JavaScript primitives used by the scheduling code\<close>

text \<open>
  \<open>parseInt\<close> without a radix: leading white space is skipped, one sign is accepted, a
  \<open>0x\<close>/\<open>0X\<close> prefix selects radix 16, and the longest prefix of digits is read.
  \<open>None\<close> stands for \<open>NaN\<close>. Strings are byte strings here, so only the ASCII white
  space characters are recognised.
\<close>

definition isWhiteSpace :: "char \<Rightarrow> bool" where
  "isWhiteSpace c \<longleftrightarrow> (of_char c :: nat) \<in> {9, 10, 11, 12, 13, 32}"

definition digitValue :: "char \<Rightarrow> nat option" where
  "digitValue c =
     (let n = (of_char c :: nat) in
      if 48 \<le> n \<and> n \<le> 57 then Some (n - 48)
      else if 97 \<le> n \<and> n \<le> 122 then Some (n - 87)
      else if 65 \<le> n \<and> n \<le> 90 then Some (n - 55)
      else None)"

definition isRadixDigit :: "nat \<Rightarrow> char \<Rightarrow> bool" where
  "isRadixDigit R c = (case digitValue c of None \<Rightarrow> False | Some d \<Rightarrow> d < R)"

definition radixValue :: "nat \<Rightarrow> string \<Rightarrow> int" where
  "radixValue R Z = foldl (\<lambda>a c. a * int R + int (case digitValue c of None \<Rightarrow> 0 | Some d \<Rightarrow> d)) 0 Z"

definition parseDigits :: "nat \<Rightarrow> string \<Rightarrow> int option" where
  "parseDigits R S =
     (let Z = takeWhile (isRadixDigit R) S in
      if Z = [] then None else Some (radixValue R Z))"

definition stripPrefix :: "string \<Rightarrow> int option" where
  "stripPrefix S =
     (case S of
        c # d # rest \<Rightarrow>
          if c = CHR ''0'' \<and> (d = CHR ''x'' \<or> d = CHR ''X'') then parseDigits 16 rest
          else parseDigits 10 S
      | _ \<Rightarrow> parseDigits 10 S)"

definition parseInt :: "string \<Rightarrow> int option" where
  "parseInt inputString =
     (let S = dropWhile isWhiteSpace inputString in
      case S of
        [] \<Rightarrow> None
      | c # rest \<Rightarrow>
          if c = CHR ''-'' then map_option uminus (stripPrefix rest)
          else if c = CHR ''+'' then stripPrefix rest
          else stripPrefix S)"

text \<open>\<open>s.split(',')\<close>: the empty string splits into one empty piece.\<close>

fun split_comma :: "string \<Rightarrow> string list" where
  "split_comma [] = [[]]"
| "split_comma (c # cs) =
     (if c = CHR '','' then [] # split_comma cs
      else (case split_comma cs of
              [] \<Rightarrow> [[c]]
            | w # ws \<Rightarrow> (c # w) # ws))"

text \<open>\<open>x || d\<close> on a nullable integer column: \<open>null\<close> and \<open>0\<close> are falsy.\<close>

definition or_int :: "int option \<Rightarrow> int \<Rightarrow> int" where
  "or_int x d = (case x of None \<Rightarrow> d | Some v \<Rightarrow> if v = 0 then d else v)"

text \<open>Truthiness of a nullable boolean column.\<close>

definition truthy :: "bool option \<Rightarrow> bool" where
  "truthy b = (case b of None \<Rightarrow> False | Some v \<Rightarrow> v)"

section \<open>Tables\<close>

text \<open>
  A row of \<open>cash_schedule_config\<close>. Every column but \<open>client_id\<close> is nullable in the
  schema, hence the options.
\<close>

record schedule_config =
  cfg_id :: nat
  cfg_clientId :: nat
  autoOpenEnabled :: "bool option"
  autoCloseEnabled :: "bool option"
  openHour :: "int option"
  openMinute :: "int option"
  closeHour :: "int option"
  closeMinute :: "int option"
  activeDays :: "string option"
  timezone :: "string option"
  cfg_createdAt :: "int option"
  cfg_updatedAt :: "int option"

text \<open>
  The places where the code calls the data store: the queries of the storage file, the two
  \<open>storage\<close> calls of the opening, and the three log inserts of a workflow. A fault plan
  says which of them throw, and with which \<open>Error\<close> message; a call that throws leaves
  the store as it was.
\<close>

datatype call_site =
    SelectConfig | UpdateConfig | InsertConfig
  | SelectLog
  | GetCurrentCashRegister | CreateCashRegister
  | LogSkipped | LogSuccess | LogFailed

type_synonym fault_plan = "call_site \<Rightarrow> string option"

section \<open>Schedule evaluator\<close>

text \<open>
  \<open>getScheduleConfig\<close>: the first row of the client, \<open>null\<close> when there is none and
  also when the query throws.
\<close>

definition getScheduleConfig ::
  "fault_plan \<Rightarrow> schedule_config list \<Rightarrow> nat \<Rightarrow> schedule_config option" where
  "getScheduleConfig fails configs clientId =
     (if fails SelectConfig \<noteq> None then None
      else (case filter (\<lambda>c. cfg_clientId c = clientId) configs of
              [] \<Rightarrow> None
            | config # _ \<Rightarrow> Some config))"

text \<open>
  The local wall clock the evaluator reads from the rebuilt \<open>Date\<close>: \<open>getDay()\<close>
  (0 is Sunday), \<open>getHours()\<close> and \<open>getMinutes()\<close>.
\<close>

record wall_clock =
  getDay :: int
  getHours :: int
  getMinutes :: int

datatype operation = Open | Close

text \<open>
  \<open>shouldExecuteAutoOperation\<close>. The conversion of the instant \<open>now\<close> to wall-clock
  fields (the \<open>Intl.DateTimeFormat\<close> round trip) is the parameter \<open>wallClock\<close>, given
  the zone name the code passes to the formatter and the instant. The \<open>catch\<close> of the
  source returns \<open>false\<close>; the only call that can throw is the configuration query,
  which \<open>getScheduleConfig\<close> absorbs itself.
\<close>

definition shouldExecuteAutoOperation ::
  "(string \<Rightarrow> int \<Rightarrow> wall_clock) \<Rightarrow> fault_plan \<Rightarrow> schedule_config list \<Rightarrow> int
     \<Rightarrow> nat \<Rightarrow> operation \<Rightarrow> bool" where
  "shouldExecuteAutoOperation wallClock fails configs now clientId operationType =
     (case getScheduleConfig fails configs clientId of
        None \<Rightarrow> False
      | Some config \<Rightarrow>
          let argentinaTime = wallClock ''America/Argentina/Buenos_Aires'' now;
              currentDay = (if getDay argentinaTime = 0 then 7 else getDay argentinaTime);
              activeDaysArr = (case activeDays config of
                                 None \<Rightarrow> []
                               | Some s \<Rightarrow> map parseInt (split_comma s));
              currentHour = getHours argentinaTime;
              currentMinute = getMinutes argentinaTime;
              currentTime = currentHour * 60 + currentMinute;
              openHour' = or_int (openHour config) 9;
              openMinute' = or_int (openMinute config) 0;
              closeHour' = or_int (closeHour config) 18;
              closeMinute' = or_int (closeMinute config) 0
          in
          if operationType = Open \<and> truthy (autoOpenEnabled config) then
            (if Some currentDay \<notin> set activeDaysArr then False
             else
               let openTime = openHour' * 60 + openMinute' in
               currentTime \<ge> openTime \<and> currentTime < openTime + 5)
          else if operationType = Close \<and> truthy (autoCloseEnabled config) then
            (let closeTime = closeHour' * 60 + closeMinute' in
             if closeHour' < openHour' \<or> (closeHour' = openHour' \<and> closeMinute' \<le> openMinute')
             then
               (let tomorrowDay = (currentDay mod 7) + 1 in
                if Some tomorrowDay \<notin> set activeDaysArr then False
                else currentTime \<ge> closeTime \<and> currentTime < closeTime + 5)
             else
               (if Some currentDay \<notin> set activeDaysArr then False
                else currentTime \<ge> closeTime \<and> currentTime < closeTime + 5))
          else False)"

section \<open>The store\<close>

text \<open>
  A row of \<open>cash_auto_operations_log\<close>. \<open>executedTime\<close> is filled by the column
  default (\<open>defaultNow\<close>) on every insert this code makes.
\<close>

record log_row =
  log_id :: nat
  log_clientId :: nat
  operationType :: string
  cashRegisterId :: "nat option"
  scheduledTime :: "int option"
  executedTime :: int
  status :: string
  errorMessage :: "string option"
  reportId :: "nat option"
  log_notes :: "string option"

text \<open>
  Modelled from the spec: the schema of the cash register table is not among the sources.
  The row has a key and the columns \<open>executeAutoOpen\<close> passes to
  \<open>storage.createCashRegister\<close>; balances written as decimal strings stay strings.
\<close>

record register_row =
  reg_id :: nat
  reg_clientId :: nat
  reg_date :: int
  initialUsd :: string
  initialArs :: string
  initialUsdt :: string
  currentUsd :: string
  currentArs :: string
  currentUsdt :: string
  dailySales :: string
  reg_totalExpenses :: string
  dailyGlobalExchangeRate :: string
  isOpen :: bool
  isActive :: bool

text \<open>
  Modelled from the spec: the schema of the report table is not among the sources. The row
  has a key and the columns the one call of \<open>storage.createDailyReport\<close> in the service
  file passes, all of them printed text.
\<close>

record daily_report =
  rep_id :: nat
  rep_clientId :: nat
  reportDate :: int
  totalIncome :: string
  totalExpenses :: string
  totalDebts :: string
  totalDebtPayments :: string
  netProfit :: string
  vendorCommissions :: string
  exchangeRateUsed :: string
  reportData :: string
  isAutoGenerated :: bool
  openingBalance :: string
  closingBalance :: string
  totalMovements :: nat

text \<open>The tables, each with the counter of its \<open>serial\<close> key.\<close>

record db =
  cash_schedule_config :: "schedule_config list"
  config_serial :: nat
  cash_auto_operations_log :: "log_row list"
  log_serial :: nat
  cash_register :: "register_row list"
  register_serial :: nat
  daily_reports :: "daily_report list"
  report_serial :: nat

text \<open>
  What a run of the service takes from outside: the fault plan, the instant \<open>new Date()\<close>
  returns (one per workflow), the conversion to wall-clock fields, the shifted instant
  \<open>new Date(now.toLocaleString(.., Buenos Aires))\<close>, and the messages the engine gives
  to the two \<open>TypeError\<close>s of the closing workflow.
\<close>

record env =
  fails :: fault_plan
  now :: int
  wallClock :: "string \<Rightarrow> int \<Rightarrow> wall_clock"
  toArgentinaTime :: "int \<Rightarrow> int"
  notIterableMessage :: string
  undefinedMessage :: string

section \<open>Operation log\<close>

text \<open>An \<open>operationData\<close> object with only the three fields every call site sets.\<close>

definition operationData :: "nat \<Rightarrow> string \<Rightarrow> string \<Rightarrow> log_row" where
  "operationData clientId ty st =
     \<lparr>log_id = 0, log_clientId = clientId, operationType = ty, cashRegisterId = None,
      scheduledTime = None, executedTime = 0, status = st, errorMessage = None,
      reportId = None, log_notes = None\<rparr>"

text \<open>
  \<open>logAutoOperation\<close>: one insert; the error is rethrown. The result pairs the message
  of a thrown error (if any) with the store at that point. The key and \<open>executedTime\<close>
  come from the table.
\<close>

definition logAutoOperation :: "env \<Rightarrow> call_site \<Rightarrow> log_row \<Rightarrow> db \<Rightarrow> string option \<times> db" where
  "logAutoOperation e site operationData' d =
     (case fails e site of
        Some msg \<Rightarrow> (Some msg, d)
      | None \<Rightarrow>
          (None,
           d\<lparr>cash_auto_operations_log :=
                cash_auto_operations_log d @
                  [operationData'\<lparr>log_id := Suc (log_serial d), executedTime := now e\<rparr>],
              log_serial := Suc (log_serial d)\<rparr>))"

text \<open>
  \<open>getAutoOperationsLog\<close>: the client's rows ordered by \<open>executedTime\<close> (ascending, the
  default of \<open>orderBy\<close>), cut at \<open>limit\<close> (50 when omitted); \<open>[]\<close> when the query throws.
  Rows with equal \<open>executedTime\<close> keep their insertion order.
\<close>

definition getAutoOperationsLog :: "fault_plan \<Rightarrow> db \<Rightarrow> nat \<Rightarrow> nat option \<Rightarrow> log_row list" where
  "getAutoOperationsLog fs d clientId limit =
     (if fs SelectLog \<noteq> None then []
      else take (case limit of None \<Rightarrow> 50 | Some n \<Rightarrow> n)
             (sort_key executedTime
                (filter (\<lambda>r. log_clientId r = clientId) (cash_auto_operations_log d))))"

section \<open>Operation executor\<close>

text \<open>
  Modelled from the spec: \<open>storage.getCurrentCashRegister\<close> is not among the sources.
  The data-store interface gives \<open>getCurrentOpenRegister(tenantId) -> Register | none\<close>:
  the tenant's open register, if there is one.
\<close>

definition getCurrentCashRegister :: "db \<Rightarrow> nat \<Rightarrow> register_row option" where
  "getCurrentCashRegister d clientId =
     find (\<lambda>r. reg_clientId r = clientId \<and> isOpen r) (cash_register d)"

text \<open>
  Modelled from the spec: \<open>storage.createCashRegister\<close> is not among the sources. The
  data-store interface gives \<open>createRegister(tenantId, initialFields) -> Register\<close>: the
  row is stored under a fresh key and returned.
\<close>

definition createCashRegister :: "db \<Rightarrow> register_row \<Rightarrow> register_row \<times> db" where
  "createCashRegister d initialFields =
     (let created = initialFields\<lparr>reg_id := Suc (register_serial d)\<rparr> in
      (created,
       d\<lparr>cash_register := cash_register d @ [created],
         register_serial := Suc (register_serial d)\<rparr>))"

text \<open>The \<open>try\<close> block of \<open>executeAutoOpen\<close>.\<close>

definition executeAutoOpen_try :: "env \<Rightarrow> nat \<Rightarrow> db \<Rightarrow> string option \<times> db" where
  "executeAutoOpen_try e clientId d =
     (case fails e GetCurrentCashRegister of
        Some msg \<Rightarrow> (Some msg, d)
      | None \<Rightarrow>
          let currentCashRegister = getCurrentCashRegister d clientId in
          if (case currentCashRegister of None \<Rightarrow> False | Some r \<Rightarrow> isOpen r) then
            logAutoOperation e LogSkipped
              ((operationData clientId ''auto_open'' ''skipped'')
                 \<lparr>cashRegisterId := map_option reg_id currentCashRegister,
                  log_notes := Some ''Cash register already open''\<rparr>) d
          else
            (case fails e CreateCashRegister of
               Some msg \<Rightarrow> (Some msg, d)
             | None \<Rightarrow>
                 let (newCashRegister, d1) =
                       createCashRegister d
                         \<lparr>reg_id = 0, reg_clientId = clientId, reg_date = now e,
                          initialUsd = ''0.00'', initialArs = ''0.00'', initialUsdt = ''0.00'',
                          currentUsd = ''0.00'', currentArs = ''0.00'', currentUsdt = ''0.00'',
                          dailySales = ''0.00'', reg_totalExpenses = ''0.00'',
                          dailyGlobalExchangeRate = ''1200.00'', isOpen = True,
                          isActive = True\<rparr>
                 in logAutoOperation e LogSuccess
                      ((operationData clientId ''auto_open'' ''success'')
                         \<lparr>cashRegisterId := Some (reg_id newCashRegister),
                          log_notes := Some ''Cash register opened automatically''\<rparr>) d1))"

text \<open>
  \<open>executeAutoOpen\<close>: the \<open>catch\<close> writes a \<open>failed\<close> entry; when that write throws too,
  the error leaves the function.
\<close>

definition executeAutoOpen :: "env \<Rightarrow> nat \<Rightarrow> db \<Rightarrow> string option \<times> db" where
  "executeAutoOpen e clientId d =
     (case executeAutoOpen_try e clientId d of
        (None, d') \<Rightarrow> (None, d')
      | (Some msg, d') \<Rightarrow>
          logAutoOperation e LogFailed
            ((operationData clientId ''auto_open'' ''failed'')\<lparr>errorMessage := Some msg\<rparr>) d')"

text \<open>
  The \<open>db\<close> object of the service file is defined in that file (l.10-14), and is not the
  query builder the storage file imports: \<open>select().from(..).where(..)\<close> gives an empty
  object, \<open>insert(..).values(..).returning()\<close> gives the array \<open>[{ id: 1 }]\<close>, and
  \<open>update(..).set(..).where(..)\<close> gives an empty object. None of them reads or writes a
  table, and none looks at its arguments. A result is an empty object or an array of
  rows, of which only the key is ever read.
\<close>

datatype awaited = EmptyObject | IdRows "nat list"

definition db_select_from_where :: awaited where
  "db_select_from_where = EmptyObject"

definition db_insert_values_returning :: awaited where
  "db_insert_values_returning = IdRows [1]"

text \<open>
  The array pattern \<open>const [x] = await ..\<close>: an object that is not iterable throws a
  \<open>TypeError\<close>; an array gives its first element, \<open>undefined\<close> when it is empty.
\<close>

definition destructureFirst :: "env \<Rightarrow> awaited \<Rightarrow> string + nat option" where
  "destructureFirst e v =
     (case v of
        EmptyObject \<Rightarrow> Inl (notIterableMessage e)
      | IdRows [] \<Rightarrow> Inr None
      | IdRows (x # _) \<Rightarrow> Inr (Some x))"

text \<open>
  The \<open>try\<close> block of \<open>executeAutoClose\<close>, statement by statement: the lookup of the
  open register and its destructuring; the \<open>skipped\<close> entry when there is none; otherwise
  the cash state (\<open>getRealTimeCashState\<close> resolves to fixed numbers, final balance
  75000.75), the report insert and its destructuring, the register update, and the
  \<open>success\<close> entry. The objects built for \<open>values(..)\<close> and \<open>set(..)\<close> go to the \<open>db\<close>
  of this file, which drops them. Reading \<open>id\<close> of an \<open>undefined\<close> report would throw.
  The note of the \<open>success\<close> entry prints the final balance and the key of the report,
  which is that of the one row the insert of this file returns.
\<close>

definition executeAutoClose_try :: "env \<Rightarrow> nat \<Rightarrow> db \<Rightarrow> string option \<times> db" where
  "executeAutoClose_try e clientId d =
     (case destructureFirst e db_select_from_where of
        Inl msg \<Rightarrow> (Some msg, d)
      | Inr None \<Rightarrow>
          logAutoOperation e LogSkipped
            ((operationData clientId ''auto_close'' ''skipped'')
               \<lparr>log_notes :=
                  Some ''No open cash register found - cannot close what is not open''\<rparr>) d
      | Inr (Some openRegisterId) \<Rightarrow>
          let argentinaTime = toArgentinaTime e (now e) in
          (case destructureFirst e db_insert_values_returning of
             Inl msg \<Rightarrow> (Some msg, d)
           | Inr None \<Rightarrow> (Some (undefinedMessage e), d)
           | Inr (Some dailyReportId) \<Rightarrow>
               logAutoOperation e LogSuccess
                 ((operationData clientId ''auto_close'' ''success'')
                    \<lparr>cashRegisterId := Some openRegisterId,
                     scheduledTime := Some argentinaTime,
                     reportId := Some dailyReportId,
                     log_notes :=
                       Some ''Auto-closed with balance: 75000.75, report generated: 1''\<rparr>) d))"

text \<open>
  \<open>executeAutoClose\<close>: the \<open>catch\<close> writes a \<open>failed\<close> entry with the message of the
  error; when that write throws too, the error leaves the function.
\<close>

definition executeAutoClose :: "env \<Rightarrow> nat \<Rightarrow> db \<Rightarrow> string option \<times> db" where
  "executeAutoClose e clientId d =
     (case executeAutoClose_try e clientId d of
        (None, d') \<Rightarrow> (None, d')
      | (Some msg, d') \<Rightarrow>
          logAutoOperation e LogFailed
            ((operationData clientId ''auto_close'' ''failed'')
               \<lparr>errorMessage := Some msg, scheduledTime := Some (now e)\<rparr>) d')"

section \<open>Execution orchestrator\<close>

text \<open>
  \<open>processClientScheduledOperations\<close>: evaluate and run the opening, then evaluate and
  run the closing. An error that leaves \<open>executeAutoOpen\<close> is caught by the outer
  \<open>catch\<close>, which skips the closing.
\<close>

definition processClientScheduledOperations :: "env \<Rightarrow> nat \<Rightarrow> db \<Rightarrow> db" where
  "processClientScheduledOperations e clientId d =
     (let shouldOpen =
            shouldExecuteAutoOperation (wallClock e) (fails e) (cash_schedule_config d)
              (now e) clientId Open;
          (thrown, d1) = (if shouldOpen then executeAutoOpen e clientId d else (None, d))
      in
      case thrown of
        Some msg \<Rightarrow> d1
      | None \<Rightarrow>
          let shouldClose =
                shouldExecuteAutoOperation (wallClock e) (fails e) (cash_schedule_config d1)
                  (now e) clientId Close
          in if shouldClose then snd (executeAutoClose e clientId d1) else d1)"

section \<open>Schedule configuration store\<close>

text \<open>
  The request body of \<open>upsertScheduleConfig\<close> is untyped. The hour and minute fields go
  through \<open>parseInt\<close>, so any value may arrive there; a number is an integer here (it
  prints as its digits, which \<open>parseInt\<close> reads back). The flags are booleans or absent,
  the two text fields strings or absent.
\<close>

datatype js_value = JUndefined | JNull | JBoolean bool | JNumber int | JString string





section \<open>Example stores and runs\<close>

text \<open>
  Instants in the examples are minutes since 1970-01-01 00:00 UTC (a Thursday), and the
  wall clock of a zone is the instant shifted by the zone's fixed offset: three hours
  behind UTC for Buenos Aires, nine hours ahead for Tokyo.
\<close>

definition zoneOffsetMinutes :: "string \<Rightarrow> int" where
  "zoneOffsetMinutes zone =
     (if zone = ''America/Argentina/Buenos_Aires'' then - 180
      else if zone = ''Asia/Tokyo'' then 540 else 0)"

definition offsetClock :: "string \<Rightarrow> int \<Rightarrow> wall_clock" where
  "offsetClock zone t =
     (let m = t + zoneOffsetMinutes zone in
      \<lparr>getDay = (4 + m div 1440) mod 7, getHours = (m mod 1440) div 60,
       getMinutes = m mod 60\<rparr>)"

text \<open>A clock that reads Tuesday 02:00 whatever the instant.\<close>

definition tuesday_0200 :: "string \<Rightarrow> int \<Rightarrow> wall_clock" where
  "tuesday_0200 zone t = \<lparr>getDay = 2, getHours = 2, getMinutes = 0\<rparr>"

definition no_faults :: fault_plan where
  "no_faults site = None"

definition fault_at :: "call_site \<Rightarrow> fault_plan" where
  "fault_at failing site = (if site = failing then Some ''connection lost'' else None)"

text \<open>Client 1, open 09:00, close 18:00, every day; the flags, days and zone vary.\<close>

definition daily_config :: "bool \<Rightarrow> bool \<Rightarrow> string \<Rightarrow> string \<Rightarrow> schedule_config" where
  "daily_config autoOpen autoClose days zone =
     \<lparr>cfg_id = 1, cfg_clientId = 1, autoOpenEnabled = Some autoOpen,
      autoCloseEnabled = Some autoClose, openHour = Some 9, openMinute = Some 0,
      closeHour = Some 18, closeMinute = Some 0, activeDays = Some days,
      timezone = Some zone, cfg_createdAt = None, cfg_updatedAt = None\<rparr>"

text \<open>Client 1, open 09:00, close 02:00 on the given days.\<close>

definition wraparound_config :: "string \<Rightarrow> schedule_config" where
  "wraparound_config days =
     (daily_config True True days ''America/Argentina/Buenos_Aires'')
       \<lparr>closeHour := Some 2\<rparr>"

text \<open>The surroundings of the example runs, which all fall on Monday 1970-01-05.\<close>

definition example_env :: "fault_plan \<Rightarrow> int \<Rightarrow> env" where
  "example_env fs t =
     \<lparr>fails = fs, now = t, wallClock = offsetClock,
      toArgentinaTime = (\<lambda>i. i - 180),
      notIterableMessage = ''{} is not iterable'',
      undefinedMessage = ''Cannot read properties of undefined''\<rparr>"

definition example_register :: register_row where
  "example_register =
     \<lparr>reg_id = 1, reg_clientId = 1, reg_date = 6480,
      initialUsd = ''0.00'', initialArs = ''0.00'', initialUsdt = ''0.00'',
      currentUsd = ''0.00'', currentArs = ''0.00'', currentUsdt = ''0.00'',
      dailySales = ''0.00'', reg_totalExpenses = ''0.00'',
      dailyGlobalExchangeRate = ''1200.00'', isOpen = True, isActive = True\<rparr>"

text \<open>A store with the configuration of client 1 and the given registers and log.\<close>

definition example_db :: "register_row list \<Rightarrow> log_row list \<Rightarrow> db" where
  "example_db registers entries =
     \<lparr>cash_schedule_config =
        [daily_config True True ''1,2,3,4,5,6,7'' ''America/Argentina/Buenos_Aires''],
      config_serial = 1,
      cash_auto_operations_log = entries, log_serial = length entries,
      cash_register = registers, register_serial = length registers,
      daily_reports = [], report_serial = 0\<rparr>"

definition example_entry :: "nat \<Rightarrow> int \<Rightarrow> log_row" where
  "example_entry i t =
     (operationData 1 ''auto_open'' ''success'')\<lparr>log_id := i, executedTime := t\<rparr>"


section \<open>Stores behind an earlier log\<close>

text \<open>
  The store \<open>d\<close> as it looks when \<open>previous\<close> was logged before it and \<open>k\<close> keys of the
  log were already given out: the entries of \<open>d\<close> come after \<open>previous\<close>, their keys
  and the key counter moved up by \<open>k\<close>. The other tables are those of \<open>d\<close>.
\<close>

abbreviation behindLog :: "log_row list \<Rightarrow> nat \<Rightarrow> db \<Rightarrow> db" where
  "behindLog previous k d \<equiv>
     d\<lparr>cash_auto_operations_log :=
         previous @ map (\<lambda>r. r\<lparr>log_id := log_id r + k\<rparr>) (cash_auto_operations_log d),
       log_serial := log_serial d + k\<rparr>"

section \<open>Evaluating the JavaScript primitives\<close>


section \<open>Schedule evaluator: properties\<close>

lemma getScheduleConfig_timezone:
  "getScheduleConfig fs (map (\<lambda>c. c\<lparr>timezone := z c\<rparr>) configs) cid
     = map_option (\<lambda>c. c\<lparr>timezone := z c\<rparr>) (getScheduleConfig fs configs cid)"
  by (simp add: getScheduleConfig_def filter_map o_def split: list.splits)

lemma timezone_update_fields:
  "autoOpenEnabled (c\<lparr>timezone := x\<rparr>) = autoOpenEnabled c"
  "autoCloseEnabled (c\<lparr>timezone := x\<rparr>) = autoCloseEnabled c"
  "openHour (c\<lparr>timezone := x\<rparr>) = openHour c"
  "openMinute (c\<lparr>timezone := x\<rparr>) = openMinute c"
  "closeHour (c\<lparr>timezone := x\<rparr>) = closeHour c"
  "closeMinute (c\<lparr>timezone := x\<rparr>) = closeMinute c"
  "activeDays (c\<lparr>timezone := x\<rparr>) = activeDays c"
  by simp_all

lemma getScheduleConfig_single:
  "getScheduleConfig no_faults [daily_config a b days zone] 1 = Some (daily_config a b days zone)"
  by (simp add: getScheduleConfig_def no_faults_def daily_config_def)

text \<open>
  C9. When the table holds no configuration row of the client (or the lookup yields none),
  and when the flag of the requested operation (\<open>autoOpenEnabled\<close> for an opening,
  \<open>autoCloseEnabled\<close> for a closing) is false or null, the evaluation is false at every
  instant and under every clock.
\<close>

theorem disabled_or_missing_never_fires:
  assumes "filter (\<lambda>c. cfg_clientId c = cid) configs = []
     \<or> getScheduleConfig fs configs cid = None
     \<or> (\<exists>config. getScheduleConfig fs configs cid = Some config \<and>
          (op = Open \<and> \<not> truthy (autoOpenEnabled config)
           \<or> op = Close \<and> \<not> truthy (autoCloseEnabled config)))"
  shows "\<not> shouldExecuteAutoOperation clock fs configs t cid op"
proof -
  from assms have "getScheduleConfig fs configs cid = None
     \<or> (\<exists>config. getScheduleConfig fs configs cid = Some config \<and>
          (op = Open \<and> \<not> truthy (autoOpenEnabled config)
           \<or> op = Close \<and> \<not> truthy (autoCloseEnabled config)))"
    by (auto simp: getScheduleConfig_def)
  then show ?thesis
    unfolding shouldExecuteAutoOperation_def
    by (auto simp: Let_def)
qed

text \<open>
  The theorem at three inputs: an empty table; opening disabled, asked at Monday 09:00
  Buenos Aires time; closing disabled, asked at Monday 18:00. The last conjunct shows
  that the opening of the third configuration does fire at 09:00, so the instants are
  inside the windows.
\<close>

theorem disabled_or_missing_never_fires_witness:
  "filter (\<lambda>c. cfg_clientId c = 1) ([] :: schedule_config list) = []
   \<and> \<not> shouldExecuteAutoOperation offsetClock no_faults [] 6480 1 Open
   \<and> \<not> truthy (autoOpenEnabled (daily_config False True ''1,2,3,4,5,6,7'' ''UTC''))
   \<and> \<not> shouldExecuteAutoOperation offsetClock no_faults
         [daily_config False True ''1,2,3,4,5,6,7'' ''UTC''] 6480 1 Open
   \<and> \<not> truthy (autoCloseEnabled (daily_config True False ''1,2,3,4,5,6,7'' ''UTC''))
   \<and> \<not> shouldExecuteAutoOperation offsetClock no_faults
         [daily_config True False ''1,2,3,4,5,6,7'' ''UTC''] 7020 1 Close
   \<and> shouldExecuteAutoOperation offsetClock no_faults
         [daily_config True False ''1,2,3,4,5,6,7'' ''UTC''] 6480 1 Open"
proof -
  have none: "filter (\<lambda>c. cfg_clientId c = 1) ([] :: schedule_config list) = []"
    by simp
  have a: "\<not> shouldExecuteAutoOperation offsetClock no_faults [] 6480 1 Open"
    using disabled_or_missing_never_fires [of 1 "[]" no_faults Open offsetClock 6480] none
    by simp
  have fo: "\<not> truthy (autoOpenEnabled (daily_config False True ''1,2,3,4,5,6,7'' ''UTC''))"
    by (simp add: truthy_def daily_config_def)
  have b: "\<not> shouldExecuteAutoOperation offsetClock no_faults
         [daily_config False True ''1,2,3,4,5,6,7'' ''UTC''] 6480 1 Open"
    using disabled_or_missing_never_fires [of 1
         "[daily_config False True ''1,2,3,4,5,6,7'' ''UTC'']" no_faults Open offsetClock 6480]
      fo getScheduleConfig_single
    by simp
  have fc: "\<not> truthy (autoCloseEnabled (daily_config True False ''1,2,3,4,5,6,7'' ''UTC''))"
    by (simp add: truthy_def daily_config_def)
  have c: "\<not> shouldExecuteAutoOperation offsetClock no_faults
         [daily_config True False ''1,2,3,4,5,6,7'' ''UTC''] 7020 1 Close"
    using disabled_or_missing_never_fires [of 1
         "[daily_config True False ''1,2,3,4,5,6,7'' ''UTC'']" no_faults Close offsetClock 7020]
      fc getScheduleConfig_single
    by simp
  have d: "shouldExecuteAutoOperation offsetClock no_faults
         [daily_config True False ''1,2,3,4,5,6,7'' ''UTC''] 6480 1 Open"
    by code_simp
  from none a fo b fc c d show ?thesis by blast
qed

text \<open>
  C3, as stated, fails. With opening at 09:00, closing at 02:00 and the clock at Tuesday
  02:00, the closing does not fire when Monday is the only active day, and it fires when
  Wednesday is the only active day, Monday being inactive.
\<close>

theorem wraparound_close_counterexample:
  "\<not> shouldExecuteAutoOperation tuesday_0200 no_faults [wraparound_config ''1''] 0 1 Close
   \<and> shouldExecuteAutoOperation tuesday_0200 no_faults [wraparound_config ''3''] 0 1 Close"
  by code_simp

text \<open>
  C3, amended. With opening at 09:00, closing at 02:00 (closing enabled) and the clock at
  Tuesday 02:00, the closing fires exactly when the configuration can be read and
  Wednesday, weekday 3 = (2 mod 7) + 1, is among the active days: a closing that wraps
  past midnight is checked against the day after the current one.
\<close>

theorem wraparound_close_checks_following_day:
  "shouldExecuteAutoOperation tuesday_0200 fs [wraparound_config days] t 1 Close
     \<longleftrightarrow> fs SelectConfig = None \<and> Some 3 \<in> set (map parseInt (split_comma days))"
  by (simp add: shouldExecuteAutoOperation_def getScheduleConfig_def tuesday_0200_def
      wraparound_config_def daily_config_def or_int_def truthy_def)

text \<open>
  C4, as stated, fails. A configuration whose \<open>timezone\<close> is Asia/Tokyo, opening at 09:00
  every day: at the instant that is Monday 09:00 in Tokyo the opening does not fire, and
  at the instant that is Monday 21:00 in Tokyo (09:00 in Buenos Aires) it fires.
\<close>

theorem config_timezone_counterexample:
  "offsetClock ''Asia/Tokyo'' 5760 = \<lparr>getDay = 1, getHours = 9, getMinutes = 0\<rparr>
   \<and> \<not> shouldExecuteAutoOperation offsetClock no_faults
         [daily_config True True ''1,2,3,4,5,6,7'' ''Asia/Tokyo''] 5760 1 Open
   \<and> offsetClock ''Asia/Tokyo'' 6480 = \<lparr>getDay = 1, getHours = 21, getMinutes = 0\<rparr>
   \<and> shouldExecuteAutoOperation offsetClock no_faults
         [daily_config True True ''1,2,3,4,5,6,7'' ''Asia/Tokyo''] 6480 1 Open"
  by code_simp

text \<open>
  C4, amended. For every configuration the evaluator reads the wall clock of
  America/Argentina/Buenos_Aires: replacing the \<open>timezone\<close> field of every row by any
  value, and the clock by one that answers for Buenos Aires whatever zone it is asked
  for, changes no evaluation.
\<close>

theorem evaluator_reads_buenos_aires_clock:
  "shouldExecuteAutoOperation clock fs (map (\<lambda>c. c\<lparr>timezone := z c\<rparr>) configs) t cid op
     = shouldExecuteAutoOperation (\<lambda>zone. clock ''America/Argentina/Buenos_Aires'')
         fs configs t cid op"
  unfolding shouldExecuteAutoOperation_def getScheduleConfig_timezone
  by (cases "getScheduleConfig fs configs cid")
     (simp_all only: option.map option.case timezone_update_fields)

section \<open>Operation log query: properties\<close>

text \<open>
  C6, as stated, fails. Three entries of client 1, executed at 200, 100 and 300: the query
  returns them oldest first, and with limit 1 it returns the oldest entry only.
\<close>

theorem log_query_counterexample:
  "map executedTime
     (getAutoOperationsLog no_faults
        (example_db [] [example_entry 1 200, example_entry 2 100, example_entry 3 300]) 1 None)
     = [100, 200, 300]
   \<and> map executedTime
     (getAutoOperationsLog no_faults
        (example_db [] [example_entry 1 200, example_entry 2 100, example_entry 3 300]) 1 (Some 1))
     = [100]"
  by (simp add: getAutoOperationsLog_def no_faults_def example_db_def example_entry_def
      operationData_def)

text \<open>
  C6, amended. For every client and limit, the query returns the client's entries oldest
  first: as many entries as the limit allows (50 when it is omitted), or all of them when
  there are fewer, and these are the beginning of an arrangement of all the client's
  entries by ascending \<open>executedTime\<close> (\<open>rest\<close> being the entries the limit cut off).
  When the query throws, the result is empty.
\<close>

theorem log_query_oldest_first:
  "let rows = filter (\<lambda>r. log_clientId r = cid) (cash_auto_operations_log d);
       n = (case limit of None \<Rightarrow> 50 | Some n \<Rightarrow> n);
       result = getAutoOperationsLog fs d cid limit
   in if fs SelectLog \<noteq> None then result = []
      else length result = min n (length rows)
           \<and> (\<exists>rest. mset (result @ rest) = mset rows
                  \<and> sorted (map executedTime (result @ rest)))"
proof (cases "fs SelectLog")
  case (Some msg)
  then show ?thesis by (simp add: getAutoOperationsLog_def)
next
  case None
  let ?rows = "filter (\<lambda>r. log_clientId r = cid) (cash_auto_operations_log d)"
  let ?n = "case limit of None \<Rightarrow> 50 | Some n \<Rightarrow> n"
  let ?sorted = "sort_key executedTime ?rows"
  have res: "getAutoOperationsLog fs d cid limit = take ?n ?sorted"
    using None by (simp add: getAutoOperationsLog_def)
  have len: "length (take ?n ?sorted) = min ?n (length ?rows)"
    by (simp add: min.commute)
  have "mset (take ?n ?sorted @ drop ?n ?sorted) = mset ?rows"
    by simp
  moreover have "sorted (map executedTime (take ?n ?sorted @ drop ?n ?sorted))"
    by (simp add: sorted_sort_key)
  ultimately have "\<exists>rest. mset (take ?n ?sorted @ rest) = mset ?rows
      \<and> sorted (map executedTime (take ?n ?sorted @ rest))"
    by blast
  with len None show ?thesis
    unfolding Let_def res by simp
qed

text \<open>
  The theorem on the log of the three entries above, with limit 2: two entries come back,
  and the first of them is executed no later than the second.
\<close>

theorem log_query_oldest_first_witness:
  "no_faults SelectLog = None
   \<and> length (getAutoOperationsLog no_faults
        (example_db [] [example_entry 1 200, example_entry 2 100, example_entry 3 300]) 1
        (Some 2)) = 2
   \<and> sorted (map executedTime (getAutoOperationsLog no_faults
        (example_db [] [example_entry 1 200, example_entry 2 100, example_entry 3 300]) 1
        (Some 2)))"
proof -
  let ?d = "example_db [] [example_entry 1 200, example_entry 2 100, example_entry 3 300]"
  let ?result = "getAutoOperationsLog no_faults ?d 1 (Some 2)"
  have f: "no_faults SelectLog = None"
    by (simp add: no_faults_def)
  have rows: "length (filter (\<lambda>r. log_clientId r = 1) (cash_auto_operations_log ?d)) = 3"
    by (simp add: example_db_def example_entry_def operationData_def)
  from log_query_oldest_first [where fs = no_faults and d = ?d and cid = 1 and limit = "Some 2"]
  have "length ?result
          = min 2 (length (filter (\<lambda>r. log_clientId r = 1) (cash_auto_operations_log ?d)))
        \<and> (\<exists>rest. mset (?result @ rest)
                     = mset (filter (\<lambda>r. log_clientId r = 1) (cash_auto_operations_log ?d))
              \<and> sorted (map executedTime (?result @ rest)))"
    unfolding Let_def using f by simp
  then have "length ?result = 2" and "sorted (map executedTime ?result)"
    unfolding rows by (auto simp add: sorted_append)
  with f show ?thesis
    by (intro conjI)
qed

section \<open>Schedule configuration store: properties\<close>









section \<open>Operation executor: properties\<close>

lemma executeAutoClose_try_throws:
  "executeAutoClose_try e cid d = (Some (notIterableMessage e), d)"
  by (simp add: executeAutoClose_try_def destructureFirst_def db_select_from_where_def)

lemma example_env_fields:
  "fails (example_env fs t) = fs" "now (example_env fs t) = t"
  by (simp_all add: example_env_def)

lemma example_db_fields:
  "cash_register (example_db registers entries) = registers"
  "cash_auto_operations_log (example_db registers entries) = entries"
  "daily_reports (example_db registers entries) = []"
  "register_serial (example_db registers entries) = length registers"
  by (simp_all add: example_db_def)





text \<open>
  C2, as stated, fails. Client 1 has an open register and the closing runs; a step of the
  workflow fails, and the insert of the \<open>failed\<close> entry throws as well. The error leaves
  the workflow and the log holds no entry at all, so no \<open>failed\<close> entry records the
  error.
\<close>

theorem auto_close_unrecorded_counterexample:
  "fst (executeAutoClose (example_env (fault_at LogFailed) 7020) 1
          (example_db [example_register] [])) = Some ''connection lost''
   \<and> cash_auto_operations_log (snd (executeAutoClose (example_env (fault_at LogFailed) 7020) 1
          (example_db [example_register] []))) = []"
  by code_simp

text \<open>
  C2, amended. A run of the closing workflow that ends without a \<open>success\<close> entry commits
  nothing: registers and reports, and the key counters of both tables, are as before, so
  an open register remains open. When the log accepts the \<open>failed\<close> entry, exactly one
  entry is appended, for the client, of type \<open>auto_close\<close>, with status \<open>failed\<close> and
  the message of the error; when the log refuses it, nothing is appended and that second
  error leaves the workflow. Every run of the workflow in this file ends this way, its
  first step being the lookup on the \<open>db\<close> object of the file.
\<close>

theorem auto_close_commits_nothing:
  "let r = executeAutoClose e cid d in
     cash_register (snd r) = cash_register d
     \<and> register_serial (snd r) = register_serial d
     \<and> daily_reports (snd r) = daily_reports d
     \<and> report_serial (snd r) = report_serial d
     \<and> (if fails e LogFailed = None
        then fst r = None
             \<and> (\<exists>entry. cash_auto_operations_log (snd r) = cash_auto_operations_log d @ [entry]
                    \<and> status entry = ''failed'' \<and> operationType entry = ''auto_close''
                    \<and> log_clientId entry = cid
                    \<and> errorMessage entry = Some (notIterableMessage e))
        else fst r = fails e LogFailed
             \<and> cash_auto_operations_log (snd r) = cash_auto_operations_log d)"
  by (cases "fails e LogFailed")
     (simp_all add: executeAutoClose_def executeAutoClose_try_throws logAutoOperation_def
        operationData_def)

text \<open>
  The theorem on the store where client 1 has an open register, with no call failing: the
  register is still open, there is no report, and the log holds one \<open>failed\<close> entry.
\<close>

theorem auto_close_commits_nothing_witness:
  "fails (example_env no_faults 7020) LogFailed = None
   \<and> fst (executeAutoClose (example_env no_faults 7020) 1
        (example_db [example_register] [])) = None
   \<and> cash_register (snd (executeAutoClose (example_env no_faults 7020) 1
        (example_db [example_register] []))) = [example_register]
   \<and> daily_reports (snd (executeAutoClose (example_env no_faults 7020) 1
        (example_db [example_register] []))) = []
   \<and> map status (cash_auto_operations_log (snd (executeAutoClose (example_env no_faults 7020) 1
        (example_db [example_register] [])))) = [''failed'']"
proof -
  let ?r = "executeAutoClose (example_env no_faults 7020) 1 (example_db [example_register] [])"
  have f: "fails (example_env no_faults 7020) LogFailed = None"
    by (simp add: example_env_fields no_faults_def)
  note t = auto_close_commits_nothing [where e = "example_env no_faults 7020" and cid = 1
      and d = "example_db [example_register] []", unfolded Let_def]
  from t have kept: "cash_register (snd ?r) = [example_register]" "daily_reports (snd ?r) = []"
    by (simp_all add: example_db_fields)
  from t f have n: "fst ?r = None"
    by simp
  from t f obtain entry where
    "cash_auto_operations_log (snd ?r)
       = cash_auto_operations_log (example_db [example_register] []) @ [entry]"
    and "status entry = ''failed''"
    by auto
  then have s: "map status (cash_auto_operations_log (snd ?r)) = [''failed'']"
    by (simp add: example_db_fields)
  from f n kept s show ?thesis
    by (intro conjI)
qed

text \<open>
  C5. Monday 18:00 in Buenos Aires, client 1 with an open register: the evaluator fires
  the closing, and the tick produces no report. The report table is empty afterwards, the
  register is still open, and the only entry of the log is a \<open>failed\<close> one that names no
  report. There is no \<open>DailyReport\<close> whose net profit could equal income minus expenses.
\<close>

theorem auto_close_produces_no_report:
  "shouldExecuteAutoOperation offsetClock no_faults
     (cash_schedule_config (example_db [example_register] [])) 7020 1 Close
   \<and> daily_reports (processClientScheduledOperations (example_env no_faults 7020) 1
        (example_db [example_register] [])) = []
   \<and> map isOpen (cash_register (processClientScheduledOperations (example_env no_faults 7020) 1
        (example_db [example_register] []))) = [True]
   \<and> map status (cash_auto_operations_log (processClientScheduledOperations
        (example_env no_faults 7020) 1 (example_db [example_register] []))) = [''failed'']
   \<and> map reportId (cash_auto_operations_log (processClientScheduledOperations
        (example_env no_faults 7020) 1 (example_db [example_register] []))) = [None]"
  by code_simp

section \<open>Execution orchestrator: properties\<close>

lemma logAutoOperation_behindLog:
  "logAutoOperation e site x (behindLog previous k d)
     = (fst (logAutoOperation e site x d),
        behindLog previous k (snd (logAutoOperation e site x d)))"
  by (simp add: logAutoOperation_def split: option.splits)

lemma executeAutoOpen_try_behindLog:
  "executeAutoOpen_try e cid (behindLog previous k d)
     = (fst (executeAutoOpen_try e cid d),
        behindLog previous k (snd (executeAutoOpen_try e cid d)))"
  by (simp add: executeAutoOpen_try_def getCurrentCashRegister_def createCashRegister_def
      logAutoOperation_def Let_def split: option.splits)

lemma executeAutoOpen_behindLog:
  "executeAutoOpen e cid (behindLog previous k d)
     = (fst (executeAutoOpen e cid d), behindLog previous k (snd (executeAutoOpen e cid d)))"
  unfolding executeAutoOpen_def executeAutoOpen_try_behindLog
  by (cases "executeAutoOpen_try e cid d")
     (simp add: logAutoOperation_behindLog split: option.splits)

lemma executeAutoClose_behindLog:
  "executeAutoClose e cid (behindLog previous k d)
     = (fst (executeAutoClose e cid d), behindLog previous k (snd (executeAutoClose e cid d)))"
  unfolding executeAutoClose_def executeAutoClose_try_throws
  by (simp add: logAutoOperation_behindLog)

lemma processClientScheduledOperations_behindLog:
  "processClientScheduledOperations e cid (behindLog previous k d)
     = behindLog previous k (processClientScheduledOperations e cid d)"
proof (cases "shouldExecuteAutoOperation (wallClock e) (fails e) (cash_schedule_config d)
              (now e) cid Open")
  case False
  then show ?thesis
    by (simp add: processClientScheduledOperations_def executeAutoClose_behindLog)
next
  case True
  obtain thrown d1 where r: "executeAutoOpen e cid d = (thrown, d1)"
    by (cases "executeAutoOpen e cid d")
  then have r': "executeAutoOpen e cid (behindLog previous k d) = (thrown, behindLog previous k d1)"
    by (simp add: executeAutoOpen_behindLog)
  show ?thesis
    using True r r'
    by (cases thrown)
       (simp_all add: processClientScheduledOperations_def executeAutoClose_behindLog)
qed

lemma executeAutoOpen_config:
  "cash_schedule_config (snd (executeAutoOpen e cid d)) = cash_schedule_config d"
  by (simp add: executeAutoOpen_def executeAutoOpen_try_def createCashRegister_def
      logAutoOperation_def Let_def split: option.splits)

lemma executeAutoOpen_entry:
  "\<exists>new. cash_auto_operations_log (snd (executeAutoOpen e cid d))
            = cash_auto_operations_log d @ new
         \<and> (if fst (executeAutoOpen e cid d) = None
            then \<exists>r. new = [r] \<and> operationType r = ''auto_open'' \<and> log_clientId r = cid
                      \<and> status r \<in> {''success'', ''skipped'', ''failed''}
            else new = [])"
  by (simp add: executeAutoOpen_def executeAutoOpen_try_def createCashRegister_def
      logAutoOperation_def operationData_def Let_def split: option.splits)

lemma executeAutoOpen_thrown:
  "fails e LogFailed = None \<Longrightarrow> fst (executeAutoOpen e cid d) = None"
  by (simp add: executeAutoOpen_def executeAutoOpen_try_def createCashRegister_def
      logAutoOperation_def operationData_def Let_def split: option.splits)

lemma executeAutoClose_entry:
  "\<exists>new. cash_auto_operations_log (snd (executeAutoClose e cid d))
            = cash_auto_operations_log d @ new
         \<and> (if fails e LogFailed = None
            then \<exists>r. new = [r] \<and> operationType r = ''auto_close'' \<and> log_clientId r = cid
                      \<and> status r = ''failed''
            else new = [])"
  by (simp add: executeAutoClose_def executeAutoClose_try_throws
      logAutoOperation_def operationData_def split: option.splits)

text \<open>
  C1, as stated, fails. Two ticks one minute apart inside the opening window, the register
  creation throwing in both: two \<open>failed\<close> entries for the same client, operation and
  day. And a tick inside the window on a store whose log already holds a \<open>success\<close>
  entry of that day, with no register open: a second \<open>success\<close> entry.
\<close>

theorem at_most_once_counterexample:
  "map status (cash_auto_operations_log
     (processClientScheduledOperations (example_env (fault_at CreateCashRegister) 6481) 1
       (processClientScheduledOperations (example_env (fault_at CreateCashRegister) 6480) 1
          (example_db [] []))))
     = [''failed'', ''failed'']
   \<and> map operationType (cash_auto_operations_log
     (processClientScheduledOperations (example_env (fault_at CreateCashRegister) 6481) 1
       (processClientScheduledOperations (example_env (fault_at CreateCashRegister) 6480) 1
          (example_db [] []))))
     = [''auto_open'', ''auto_open'']
   \<and> map status (cash_auto_operations_log
     (processClientScheduledOperations (example_env no_faults 6481) 1
        (example_db [] [example_entry 1 6480])))
     = [''success'', ''success'']"
  by code_simp

text \<open>
  C1, amended. The orchestrator never reads the operation log. What a tick does to a
  store is what it does to the same store with an empty log and a fresh key counter, put
  behind the entries the log already held: no entry, and no key given out before, changes
  which operations run or what they write. And a tick appends, for the client it
  processes, one entry for each operation the evaluator fires, the opening before the
  closing, each with status \<open>success\<close>, \<open>skipped\<close> or \<open>failed\<close>, as long as the log
  accepts \<open>failed\<close> entries; when it refuses them, the tick appends the first of these
  entries or none. Nothing looks for an entry of the same client, operation and day, so
  ticks of one window each append their own.
\<close>

theorem orchestrator_never_reads_log:
  "processClientScheduledOperations e cid d
     = behindLog (cash_auto_operations_log d) (log_serial d)
         (processClientScheduledOperations e cid
            (d\<lparr>cash_auto_operations_log := [], log_serial := 0\<rparr>))
   \<and> (\<exists>new. cash_auto_operations_log (processClientScheduledOperations e cid d)
               = cash_auto_operations_log d @ new
            \<and> map log_clientId new = replicate (length new) cid
            \<and> set (map status new) \<subseteq> {''success'', ''skipped'', ''failed''}
            \<and> (let fired =
                      (if shouldExecuteAutoOperation (wallClock e) (fails e)
                            (cash_schedule_config d) (now e) cid Open
                       then [''auto_open''] else [])
                      @ (if shouldExecuteAutoOperation (wallClock e) (fails e)
                              (cash_schedule_config d) (now e) cid Close
                         then [''auto_close''] else [])
                in (\<exists>rest. fired = map operationType new @ rest)
                   \<and> (fails e LogFailed = None \<longrightarrow> map operationType new = fired)))"
proof
  let ?blank = "d\<lparr>cash_auto_operations_log := [], log_serial := 0\<rparr>"
  have "behindLog (cash_auto_operations_log d) (log_serial d) ?blank = d"
    by simp
  then show "processClientScheduledOperations e cid d
     = behindLog (cash_auto_operations_log d) (log_serial d)
         (processClientScheduledOperations e cid ?blank)"
    using processClientScheduledOperations_behindLog
            [where e = e and cid = cid and previous = "cash_auto_operations_log d"
               and k = "log_serial d" and d = ?blank]
    by simp
next
  let ?so = "shouldExecuteAutoOperation (wallClock e) (fails e) (cash_schedule_config d)
              (now e) cid Open"
  let ?sc = "shouldExecuteAutoOperation (wallClock e) (fails e) (cash_schedule_config d)
              (now e) cid Close"
  let ?fired = "(if ?so then [''auto_open''] else []) @ (if ?sc then [''auto_close''] else [])"
  obtain thrown d1 where
    r: "(if ?so then executeAutoOpen e cid d else (None, d)) = (thrown, d1)"
    by (cases "if ?so then executeAutoOpen e cid d else (None, d)")
  have cfg: "cash_schedule_config d1 = cash_schedule_config d"
    using r executeAutoOpen_config [of e cid d] by (auto split: if_splits)
  have "\<exists>new. cash_auto_operations_log d1 = cash_auto_operations_log d @ new
         \<and> (if ?so \<and> thrown = None
            then \<exists>r. new = [r] \<and> operationType r = ''auto_open'' \<and> log_clientId r = cid
                      \<and> status r \<in> {''success'', ''skipped'', ''failed''}
            else new = [])"
    using r executeAutoOpen_entry [of e cid d]
    by (auto split: if_splits)
  then obtain newOpen where
    o: "cash_auto_operations_log d1 = cash_auto_operations_log d @ newOpen"
       "if ?so \<and> thrown = None
        then \<exists>r. newOpen = [r] \<and> operationType r = ''auto_open'' \<and> log_clientId r = cid
                  \<and> status r \<in> {''success'', ''skipped'', ''failed''}
        else newOpen = []"
    by blast
  have th: "fails e LogFailed = None \<Longrightarrow> thrown = None"
    using r executeAutoOpen_thrown [of e cid d] by (auto split: if_splits)
  let ?d2 = "if thrown = None \<and> ?sc then snd (executeAutoClose e cid d1) else d1"
  have res: "processClientScheduledOperations e cid d = ?d2"
    using r cfg by (cases thrown) (simp_all add: processClientScheduledOperations_def)
  have "\<exists>new. cash_auto_operations_log ?d2 = cash_auto_operations_log d1 @ new
         \<and> (if thrown = None \<and> ?sc \<and> fails e LogFailed = None
            then \<exists>r. new = [r] \<and> operationType r = ''auto_close'' \<and> log_clientId r = cid
                      \<and> status r = ''failed''
            else new = [])"
    using executeAutoClose_entry [of e cid d1] by auto
  then obtain newClose where
    c: "cash_auto_operations_log ?d2 = cash_auto_operations_log d1 @ newClose"
       "if thrown = None \<and> ?sc \<and> fails e LogFailed = None
        then \<exists>r. newClose = [r] \<and> operationType r = ''auto_close'' \<and> log_clientId r = cid
                  \<and> status r = ''failed''
        else newClose = []"
    by blast
  have 1: "cash_auto_operations_log (processClientScheduledOperations e cid d)
          = cash_auto_operations_log d @ (newOpen @ newClose)"
    unfolding res using o(1) c(1) by simp
  have 2: "map log_clientId (newOpen @ newClose) = replicate (length (newOpen @ newClose)) cid"
    using o(2) c(2) by (auto split: if_splits)
  have 3: "set (map status (newOpen @ newClose)) \<subseteq> {''success'', ''skipped'', ''failed''}"
    using o(2) c(2) by (auto split: if_splits)
  have 4: "\<exists>rest. ?fired = map operationType (newOpen @ newClose) @ rest"
    using o(2) c(2) by (auto split: if_splits)
  have 5: "fails e LogFailed = None \<longrightarrow> map operationType (newOpen @ newClose) = ?fired"
    using o(2) c(2) th by (auto split: if_splits)
  show "\<exists>new. cash_auto_operations_log (processClientScheduledOperations e cid d)
               = cash_auto_operations_log d @ new
            \<and> map log_clientId new = replicate (length new) cid
            \<and> set (map status new) \<subseteq> {''success'', ''skipped'', ''failed''}
            \<and> (let fired = ?fired
                in (\<exists>rest. fired = map operationType new @ rest)
                   \<and> (fails e LogFailed = None \<longrightarrow> map operationType new = fired))"
    unfolding Let_def
    by (rule exI [of _ "newOpen @ newClose"]) (intro conjI 1 2 3 4 5)
qed

text \<open>
  The theorem on a tick one minute into the opening window of Monday, on a store whose
  log already holds an \<open>auto_open\<close> entry of that day and with no call failing: the
  evaluator fires the opening and not the closing, and the log holds a second
  \<open>auto_open\<close> entry afterwards.
\<close>

theorem orchestrator_never_reads_log_witness:
  "fails (example_env no_faults 6481) LogFailed = None
   \<and> shouldExecuteAutoOperation (wallClock (example_env no_faults 6481))
        (fails (example_env no_faults 6481))
        (cash_schedule_config (example_db [] [example_entry 1 6480]))
        (now (example_env no_faults 6481)) 1 Open
   \<and> \<not> shouldExecuteAutoOperation (wallClock (example_env no_faults 6481))
        (fails (example_env no_faults 6481))
        (cash_schedule_config (example_db [] [example_entry 1 6480]))
        (now (example_env no_faults 6481)) 1 Close
   \<and> map operationType (cash_auto_operations_log
         (processClientScheduledOperations (example_env no_faults 6481) 1
            (example_db [] [example_entry 1 6480])))
       = [''auto_open'', ''auto_open'']"
proof -
  let ?e = "example_env no_faults 6481"
  let ?d = "example_db [] [example_entry 1 6480]"
  have f: "fails ?e LogFailed = None"
    by (simp add: example_env_def no_faults_def)
  have so: "shouldExecuteAutoOperation (wallClock ?e) (fails ?e) (cash_schedule_config ?d)
              (now ?e) 1 Open"
    by code_simp
  have sc: "\<not> shouldExecuteAutoOperation (wallClock ?e) (fails ?e) (cash_schedule_config ?d)
              (now ?e) 1 Close"
    by code_simp
  have before: "map operationType (cash_auto_operations_log ?d) = [''auto_open'']"
    by (simp add: example_db_def example_entry_def operationData_def)
  from orchestrator_never_reads_log [where e = ?e and cid = 1 and d = ?d, THEN conjunct2]
  obtain new where
    n: "cash_auto_operations_log (processClientScheduledOperations ?e 1 ?d)
          = cash_auto_operations_log ?d @ new"
    and t: "fails ?e LogFailed = None \<longrightarrow> map operationType new =
        (if shouldExecuteAutoOperation (wallClock ?e) (fails ?e) (cash_schedule_config ?d)
              (now ?e) 1 Open then [''auto_open''] else [])
        @ (if shouldExecuteAutoOperation (wallClock ?e) (fails ?e) (cash_schedule_config ?d)
              (now ?e) 1 Close then [''auto_close''] else [])"
    unfolding Let_def by (elim exE conjE) (rule that, assumption+)
  from t f so sc have "map operationType new = [''auto_open'']"
    by (simp only: if_True if_False append_Nil2 simp_thms)
  with n before have "map operationType (cash_auto_operations_log
         (processClientScheduledOperations ?e 1 ?d)) = [''auto_open'', ''auto_open'']"
    by simp
  with f so sc show ?thesis
    by (intro conjI)
qed

end
